theory Spec2Isabelle
  imports Complex_Main "HOL-Library.Sublist" "HOL-Library.Word" "HOL-Library.Signed_Division"
    "HOL-Library.Log_Nat" "HOL-Library.AList"
begin

section \<open>Go strings and the library calls the adapter makes\<close>

text \<open>
  A Go string is a sequence of bytes: \<^typ>\<open>string\<close>. The library functions below are
  the ones the code calls, each specialised to the arguments of its call site and
  written from the documentation of the Go standard library. \<open>strings.TrimRight\<close>
  and \<open>strings.ToLower\<close> work on code points in Go; the byte-wise versions here
  agree with them on ASCII text.
\<close>

text \<open>\<open>s3Pattern.MatchString(source)\<close> for \<open>s3Pattern = regexp.MustCompile(`^s3://`)\<close>:
  the pattern is anchored at the start of the text, so it matches exactly the strings
  that begin with \<open>s3://\<close>.\<close>

definition s3Pattern_MatchString :: "string \<Rightarrow> bool" where
  "s3Pattern_MatchString source = prefix ''s3://'' source"

text \<open>\<open>strings.Replace(s, old, new, 1)\<close>: the leftmost occurrence of \<open>old\<close> is
  replaced by \<open>new\<close>; a string without an occurrence is returned as it is.\<close>

fun strings_Replace_1 :: "string \<Rightarrow> string \<Rightarrow> string \<Rightarrow> string" where
  "strings_Replace_1 [] old new = (if old = [] then new else [])"
| "strings_Replace_1 (c # cs) old new =
     (if prefix old (c # cs) then new @ drop (length old) (c # cs)
      else c # strings_Replace_1 cs old new)"

text \<open>\<open>strings.SplitN(s, sep, 2)\<close> for a one-byte separator: the text before the first
  separator and the text after it, or the whole string alone when it holds no
  separator.\<close>

definition strings_SplitN_2 :: "string \<Rightarrow> char \<Rightarrow> string list" where
  "strings_SplitN_2 s sep =
     (if sep \<in> set s
      then [takeWhile (\<lambda>c. c \<noteq> sep) s, tl (dropWhile (\<lambda>c. c \<noteq> sep) s)]
      else [s])"

text \<open>\<open>filepath.Ext(path)\<close>: the suffix beginning at the final dot of the final
  slash-separated element of the path, empty when that element has no dot. The scan
  runs from the end of the string, so it is written on the reversed string, with the
  bytes already passed collected in \<open>acc\<close>.\<close>

fun Ext_scan :: "string \<Rightarrow> string \<Rightarrow> string" where
  "Ext_scan [] acc = []"
| "Ext_scan (c # cs) acc =
     (if c = CHR ''/'' then []
      else if c = CHR ''.'' then c # acc
      else Ext_scan cs (c # acc))"

definition filepath_Ext :: "string \<Rightarrow> string" where
  "filepath_Ext path = Ext_scan (rev path) []"

text \<open>\<open>strings.TrimRight(s, cutset)\<close>: every trailing character of \<open>s\<close> that occurs in
  \<open>cutset\<close> is removed. The cutset is a set of characters, not a suffix.\<close>

definition strings_TrimRight :: "string \<Rightarrow> string \<Rightarrow> string" where
  "strings_TrimRight s cutset = rev (dropWhile (\<lambda>c. c \<in> set cutset) (rev s))"

text \<open>\<open>strings.ToLower(s)\<close>, byte by byte: the letters \<open>A\<close> to \<open>Z\<close> become \<open>a\<close> to
  \<open>z\<close>.\<close>

definition ToLower_byte :: "char \<Rightarrow> char" where
  "ToLower_byte ch =
     (let n = (of_char ch :: nat) in if 65 \<le> n \<and> n \<le> 90 then char_of (n + 32) else ch)"

definition strings_ToLower :: "string \<Rightarrow> string" where
  "strings_ToLower s = map ToLower_byte s"

text \<open>\<open>strconv.Atoi(s)\<close> where the caller drops the error (\<open>n, _ := strconv.Atoi(s)\<close>):
  an optional sign and at least one decimal digit give the number, clamped to the range
  of a 64-bit \<open>int\<close>; any other string gives 0.\<close>

definition is_digit :: "char \<Rightarrow> bool" where
  "is_digit ch = (48 \<le> (of_char ch :: nat) \<and> (of_char ch :: nat) \<le> 57)"

definition digits_value :: "string \<Rightarrow> nat" where
  "digits_value ds = foldl (\<lambda>acc ch. 10 * acc + ((of_char ch :: nat) - 48)) 0 ds"

definition strconv_Atoi :: "string \<Rightarrow> int" where
  "strconv_Atoi s =
     (let signed = (s \<noteq> [] \<and> (hd s = CHR ''-'' \<or> hd s = CHR ''+''));
          neg = (s \<noteq> [] \<and> hd s = CHR ''-'');
          body = (if signed then tl s else s)
      in if body = [] \<or> \<not> list_all is_digit body then 0
         else if neg then max (- (2 ^ 63)) (- int (digits_value body))
         else min (2 ^ 63 - 1) (int (digits_value body)))"

text \<open>\<open>strconv.Itoa(i)\<close>: the decimal digits of \<open>i\<close>, after a minus sign when \<open>i\<close> is
  negative.\<close>

function Itoa_nat :: "nat \<Rightarrow> string" where
  "Itoa_nat n =
     (if n < 10 then [char_of (48 + n)]
      else Itoa_nat (n div 10) @ [char_of (48 + n mod 10)])"
  by pat_completeness auto
termination
  by (relation "measure id") auto

definition strconv_Itoa :: "int \<Rightarrow> string" where
  "strconv_Itoa i = (if i < 0 then CHR ''-'' # Itoa_nat (nat (- i)) else Itoa_nat (nat i))"

text \<open>\<open>aws.StringValue\<close> and \<open>aws.Int64Value\<close>: the value behind a pointer, the zero
  value for \<open>nil\<close>.\<close>

definition aws_StringValue :: "string option \<Rightarrow> string" where
  "aws_StringValue v = (case v of None \<Rightarrow> [] | Some x \<Rightarrow> x)"

definition aws_Int64Value :: "64 word option \<Rightarrow> 64 word" where
  "aws_Int64Value v = (case v of None \<Rightarrow> 0 | Some x \<Rightarrow> x)"

section \<open>float64 arithmetic\<close>

text \<open>
  A \<open>float64\<close> is a rational with a 53-bit significand, an infinity or NaN. Every
  operation returns the exact result rounded to the nearest such rational, ties to the
  even significand. The exponent range is not limited here: the model is exact for
  magnitudes between 2 to the power -1022 and 2 to the power 1024, which the quotients
  and products of the adapter (of counts below 2 to the power 64) stay in.
\<close>

datatype float64 = Finite rat | PosInf | NegInf | NaN

definition pow2 :: "int \<Rightarrow> rat" where
  "pow2 k = (if 0 \<le> k then 2 ^ nat k else 1 / 2 ^ nat (- k))"

text \<open>The binary exponent of a positive rational \<open>x\<close>: the \<open>e\<close> with
  \<open>pow2 e \<le> x < pow2 (e + 1)\<close>.\<close>

definition exponent2 :: "rat \<Rightarrow> int" where
  "exponent2 x = (if 1 \<le> x then bitlen \<lfloor>x\<rfloor> - 1 else - bitlen (\<lceil>1 / x\<rceil> - 1))"

definition ties_even :: "rat \<Rightarrow> int" where
  "ties_even q =
     (let f = \<lfloor>q\<rfloor>; r = q - of_int f
      in if r < 1 / 2 then f else if 1 / 2 < r then f + 1 else if even f then f else f + 1)"

definition f64_round :: "rat \<Rightarrow> rat" where
  "f64_round x =
     (if x = 0 then 0
      else let u = pow2 (exponent2 \<bar>x\<bar> - 52)
           in sgn x * of_int (ties_even (\<bar>x\<bar> / u)) * u)"

text \<open>\<open>float64(n)\<close> for an integer \<open>n\<close>.\<close>

definition f64_of_int :: "int \<Rightarrow> float64" where
  "f64_of_int n = Finite (f64_round (of_int n))"

fun f64_add :: "float64 \<Rightarrow> float64 \<Rightarrow> float64" where
  "f64_add (Finite a) (Finite b) = Finite (f64_round (a + b))"
| "f64_add NaN y = NaN"
| "f64_add x NaN = NaN"
| "f64_add PosInf NegInf = NaN"
| "f64_add NegInf PosInf = NaN"
| "f64_add PosInf y = PosInf"
| "f64_add NegInf y = NegInf"
| "f64_add x PosInf = PosInf"
| "f64_add x NegInf = NegInf"

fun f64_mul :: "float64 \<Rightarrow> float64 \<Rightarrow> float64" where
  "f64_mul (Finite a) (Finite b) = Finite (f64_round (a * b))"
| "f64_mul NaN y = NaN"
| "f64_mul x NaN = NaN"
| "f64_mul PosInf (Finite b) = (if b = 0 then NaN else if 0 < b then PosInf else NegInf)"
| "f64_mul NegInf (Finite b) = (if b = 0 then NaN else if 0 < b then NegInf else PosInf)"
| "f64_mul (Finite a) PosInf = (if a = 0 then NaN else if 0 < a then PosInf else NegInf)"
| "f64_mul (Finite a) NegInf = (if a = 0 then NaN else if 0 < a then NegInf else PosInf)"
| "f64_mul PosInf PosInf = PosInf"
| "f64_mul NegInf NegInf = PosInf"
| "f64_mul PosInf NegInf = NegInf"
| "f64_mul NegInf PosInf = NegInf"

text \<open>Division; the zeros that occur here are positive zeros.\<close>

fun f64_div :: "float64 \<Rightarrow> float64 \<Rightarrow> float64" where
  "f64_div (Finite a) (Finite b) =
     (if b = 0 then (if a = 0 then NaN else if 0 < a then PosInf else NegInf)
      else Finite (f64_round (a / b)))"
| "f64_div NaN y = NaN"
| "f64_div x NaN = NaN"
| "f64_div (Finite a) PosInf = Finite 0"
| "f64_div (Finite a) NegInf = Finite 0"
| "f64_div PosInf (Finite b) = (if 0 \<le> b then PosInf else NegInf)"
| "f64_div NegInf (Finite b) = (if 0 \<le> b then NegInf else PosInf)"
| "f64_div PosInf y = NaN"
| "f64_div NegInf y = NaN"

section \<open>Go errors and the outcome of a call\<close>

text \<open>
  The error values the code creates, returns and compares.
  \<^item> \<open>ErrPresetMapNotFound\<close> is the sentinel the adapter returns as
    \<open>provider.ErrPresetMapNotFound\<close> and the service compares against under the name
    \<open>provider.ErrPresetNotFound\<close>. Modelled from the spec: the declarations of package
    \<open>provider\<close> are not among the source files; the spec (section 4.2) has one
    distinguished \<open>PresetNotFound\<close>/\<open>PresetMapNotFound\<close> condition, so the two names
    stand for one value.
  \<^item> \<open>db_ErrPresetNotFound\<close> and \<open>db_ErrJobNotFound\<close> are the sentinels of package \<open>db\<close>.
  \<^item> \<open>errAWSInvalidConfig\<close> is the adapter's package-level \<open>errors.New(...)\<close> value: a
    plain error.
  \<^item> \<open>InvalidConfigError\<close> and \<open>JobNotFoundError\<close> are the values of the two error types
    of package \<open>provider\<close> that the service recognizes by a type assertion.
  \<^item> \<open>Errorf\<close> is a value made by \<open>fmt.Errorf\<close>: the format string, the string
    arguments as printed and the error arguments.
  \<^item> \<open>BackendError\<close> is any error of a collaborator (the SDK client, the stores, the
    registry), with its message.
\<close>

datatype go_error =
    ErrPresetMapNotFound
  | db_ErrPresetNotFound
  | db_ErrJobNotFound
  | errAWSInvalidConfig
  | InvalidConfigError string
  | JobNotFoundError string
  | Errorf string "string list" "go_error list"
  | BackendError string

text \<open>The type assertions \<open>err.(provider.InvalidConfigError)\<close> and
  \<open>err.(provider.JobNotFoundError)\<close>: they succeed on the values of that type only.\<close>

fun is_InvalidConfigError :: "go_error \<Rightarrow> bool" where
  "is_InvalidConfigError (InvalidConfigError msg) = True"
| "is_InvalidConfigError e = False"

fun is_JobNotFoundError :: "go_error \<Rightarrow> bool" where
  "is_JobNotFoundError (JobNotFoundError i) = True"
| "is_JobNotFoundError e = False"

text \<open>A call returns a value, returns an error, or panics (a \<open>nil\<close> pointer is
  dereferenced).\<close>

datatype ('e, 'a) go_result = Ok 'a | Err 'e | Panic

type_synonym 'a result = "(go_error, 'a) go_result"

section \<open>The shared status vocabulary (package provider)\<close>

text \<open>Modelled from the spec: the declaration of \<open>provider.Status\<close> is not among the
  source files. The spec (section 3) gives it as a closed enumeration of five states.\<close>

datatype Status = StatusQueued | StatusStarted | StatusFinished | StatusFailed | StatusCanceled

section \<open>Data of the packages db, provider and config\<close>

text \<open>
  The struct declarations are not among the source files; each record has the fields the
  code reads and writes, under the names the code uses (a prefix keeps the field names
  of different structs apart). A Go \<open>uint\<close> or \<open>int64\<close> is a 64-bit word, a pointer
  that may be \<open>nil\<close> is an \<open>option\<close>, a Go map is a HOL map.
\<close>

record PresetMap =
  pm_Name :: string
  ProviderMapping :: "string \<rightharpoonup> string"

record TranscodeOutput =
  Preset :: PresetMap
  FileName :: string

record StreamingParams =
  SegmentDuration :: "64 word"
  Protocol :: string
  PlaylistFileName :: string

record TranscodeProfile =
  SourceMedia :: string
  Presets :: "PresetMap list"
  Outputs :: "TranscodeOutput list"
  profile_StreamingParams :: StreamingParams

record db_StreamingParams =
  db_SegmentDuration :: "64 word"
  db_Protocol :: string

record Job =
  ID :: string
  ProviderName :: string
  ProviderJobID :: string
  StatusCallbackURL :: string
  StatusCallbackInterval :: "64 word"
  CompletionCallbackURL :: string
  job_StreamingParams :: db_StreamingParams

record OutputFile =
  of_Path :: string
  of_Container :: string
  of_VideoCodec :: string
  of_Width :: "64 word"
  of_Height :: "64 word"

text \<open>\<open>provider.JobStatus\<close>, with the fields of its \<open>MediaInfo\<close> and \<open>Output\<close> parts
  side by side; \<open>js_ProviderStatus\<close> is the map stored under \<open>"outputs"\<close>.\<close>

record JobStatus =
  js_ProviderName :: string
  js_ProviderJobID :: string
  js_Status :: Status
  js_Progress :: float64
  js_ProviderStatus :: "(string \<times> string) list"
  js_Duration :: "64 word"
  js_Height :: "64 word"
  js_Width :: "64 word"
  js_Destination :: string
  js_Files :: "OutputFile list"

record VideoPreset =
  pv_Codec :: string
  pv_GopSize :: string
  pv_GopMode :: string
  pv_Width :: string
  pv_Height :: string
  pv_Bitrate :: string

record AudioPreset =
  pa_Codec :: string
  pa_Bitrate :: string

text \<open>\<open>provider.Preset\<close>, the generic preset that \<open>CreatePreset\<close> translates.\<close>

record provider_Preset =
  pp_Name :: string
  pp_Description :: string
  pp_Container :: string
  pp_Profile :: string
  pp_ProfileLevel :: string
  pp_Video :: VideoPreset
  pp_Audio :: AudioPreset

record ElasticTranscoder_config =
  AccessKeyID :: string
  SecretAccessKey :: string
  Region :: string
  PipelineID :: string

record Config =
  ElasticTranscoder :: "ElasticTranscoder_config option"

section \<open>The Elastic Transcoder API\<close>

text \<open>The requests and responses of the AWS SDK, with the fields the adapter sets and
  reads. A response field the adapter dereferences is an \<open>option\<close>.\<close>

record aws_Video =
  av_Codec :: "string option"

record aws_Preset =
  ap_Id :: "string option"
  ap_Container :: "string option"
  ap_Video :: "aws_Video option"

record CreateJobOutput =
  cjo_PresetId :: string
  cjo_Key :: string
  cjo_SegmentDuration :: "string option"

record CreateJobPlaylist =
  cjp_Format :: string
  cjp_Name :: string
  cjp_OutputKeys :: "string list"

record CreateJobInput =
  cji_PipelineId :: string
  cji_InputKey :: string
  cji_Outputs :: "CreateJobOutput list"
  cji_Playlists :: "CreateJobPlaylist list"

record aws_DetectedProperties =
  dp_DurationMillis :: "64 word option"
  dp_Height :: "64 word option"
  dp_Width :: "64 word option"

record aws_JobInput =
  ji_DetectedProperties :: "aws_DetectedProperties option"

record aws_JobOutput =
  jo_Status :: "string option"
  jo_Key :: "string option"
  jo_StatusDetail :: "string option"
  jo_PresetId :: "string option"
  jo_Width :: "64 word option"
  jo_Height :: "64 word option"

record aws_Job =
  aj_Id :: "string option"
  aj_Status :: "string option"
  aj_PipelineId :: "string option"
  aj_OutputKeyPrefix :: "string option"
  aj_Outputs :: "aws_JobOutput list"
  aj_Input :: "aws_JobInput option"

record aws_Pipeline =
  pl_OutputBucket :: "string option"

record VideoParameters =
  ev_DisplayAspectRatio :: string
  ev_FrameRate :: string
  ev_SizingPolicy :: string
  ev_PaddingPolicy :: string
  ev_Codec :: string
  ev_KeyframesMaxDist :: string
  ev_CodecOptions :: "(string \<times> string) list"
  ev_MaxWidth :: string
  ev_MaxHeight :: string
  ev_BitRate :: string
  ev_FixedGOP :: "string option"

record Thumbnails =
  th_PaddingPolicy :: string
  th_Format :: string
  th_Interval :: string
  th_SizingPolicy :: string
  th_MaxWidth :: string
  th_MaxHeight :: string

record AudioParameters =
  ea_Codec :: string
  ea_Channels :: string
  ea_SampleRate :: string
  ea_BitRate :: string

record CreatePresetInput =
  cpi_Name :: string
  cpi_Description :: string
  cpi_Container :: string
  cpi_Video :: VideoParameters
  cpi_Audio :: AudioParameters
  cpi_Thumbnails :: Thumbnails

text \<open>
  The client \<open>p.c\<close> (\<open>elastictranscoderiface.ElasticTranscoderAPI\<close>): for each
  operation, what the backend answers to a request, either the message of the SDK's
  error (\<open>Inl\<close>) or the pointer field of the response that the adapter reads
  (\<open>Preset\<close>, \<open>Job\<close>, \<open>Pipeline\<close>). Within one call of an adapter method the backend
  answers equal requests equally.
\<close>

record ElasticTranscoderAPI =
  c_ReadPreset :: "string option \<Rightarrow> string + aws_Preset option"
  c_CreateJob :: "CreateJobInput \<Rightarrow> string + aws_Job option"
  c_ReadJob :: "string \<Rightarrow> string + aws_Job option"
  c_ReadPipeline :: "string option \<Rightarrow> string + aws_Pipeline option"
  c_CreatePreset :: "CreatePresetInput \<Rightarrow> string + aws_Preset option"

record awsProvider =
  aws_c :: ElasticTranscoderAPI
  aws_config :: ElasticTranscoder_config

section \<open>The Elastic Transcoder adapter\<close>

subsection \<open>statusMap\<close>

text \<open>The \<open>switch\<close> of \<open>statusMap\<close>, case by case in the order of the source. The
  receiver is not used by the method and is left out.\<close>

definition statusMap :: "string \<Rightarrow> Status" where
  "statusMap awsStatus =
     (if awsStatus = ''Submitted'' then StatusQueued
      else if awsStatus = ''Progressing'' then StatusStarted
      else if awsStatus = ''Complete'' then StatusFinished
      else if awsStatus = ''Canceled'' then StatusCanceled
      else StatusFailed)"

subsection \<open>normalizeSource\<close>

definition normalizeSource :: "string \<Rightarrow> string" where
  "normalizeSource source =
     (if s3Pattern_MatchString source
      then (let source' = strings_Replace_1 source ''s3://'' '''';
                parts = strings_SplitN_2 source' CHR ''/''
            in parts ! (length parts - 1))
      else source)"

subsection \<open>outputKey and Transcode\<close>

definition Name :: string where
  "Name = ''elastictranscoder''"

definition defaultAWSRegion :: string where
  "defaultAWSRegion = ''us-east-1''"

definition outputKey :: "Job \<Rightarrow> string \<Rightarrow> bool \<Rightarrow> string" where
  "outputKey job fileName adaptive =
     (let fileName' = (if adaptive then strings_TrimRight fileName (filepath_Ext fileName)
                       else fileName)
      in ID job @ ''/'' @ fileName')"

text \<open>
  The first loop of \<open>Transcode\<close>, over \<open>transcodeProfile.Outputs\<close>. It returns
  \<open>params.Outputs\<close> and \<open>adaptiveStreamingOutputs\<close> as they stand after the loop, or
  the error of the first output that fails.
\<close>

fun Transcode_outputs ::
  "awsProvider \<Rightarrow> Job \<Rightarrow> TranscodeProfile \<Rightarrow> TranscodeOutput list \<Rightarrow>
     (CreateJobOutput list \<times> TranscodeOutput list) result" where
  "Transcode_outputs p job transcodeProfile [] = Ok ([], [])"
| "Transcode_outputs p job transcodeProfile (output # rest) =
     (case ProviderMapping (Preset output) Name of
        None \<Rightarrow> Err ErrPresetMapNotFound
      | Some presetID \<Rightarrow>
          (case c_ReadPreset (aws_c p) (Some presetID) of
             Inl msg \<Rightarrow> Err (BackendError msg)
           | Inr presetOutput \<Rightarrow>
               (case (case presetOutput of None \<Rightarrow> None | Some pr \<Rightarrow> ap_Container pr) of
                  None \<Rightarrow> Err (Errorf ''misconfigured preset: %s'' [presetID] [])
                | Some container \<Rightarrow>
                    (let isAdaptiveStreamingPreset = (container = ''ts'');
                         out = \<lparr>cjo_PresetId = presetID,
                                cjo_Key = outputKey job (FileName output) isAdaptiveStreamingPreset,
                                cjo_SegmentDuration =
                                  (if isAdaptiveStreamingPreset
                                   then Some (strconv_Itoa (sint (SegmentDuration
                                          (profile_StreamingParams transcodeProfile))))
                                   else None)\<rparr>
                     in case Transcode_outputs p job transcodeProfile rest of
                          Ok (outs, adaptiveStreamingOutputs) \<Rightarrow>
                            Ok (out # outs,
                                if isAdaptiveStreamingPreset
                                then output # adaptiveStreamingOutputs
                                else adaptiveStreamingOutputs)
                        | Err e \<Rightarrow> Err e
                        | Panic \<Rightarrow> Panic))))"

text \<open>The request \<open>params\<close> that \<open>Transcode\<close> has built when it calls \<open>CreateJob\<close>
  (line 111), or the error it has returned before.\<close>

definition Transcode_params :: "awsProvider \<Rightarrow> Job \<Rightarrow> TranscodeProfile \<Rightarrow> CreateJobInput result" where
  "Transcode_params p job transcodeProfile =
     (let source = normalizeSource (SourceMedia transcodeProfile)
      in case Transcode_outputs p job transcodeProfile (Outputs transcodeProfile) of
           Err e \<Rightarrow> Err e
         | Panic \<Rightarrow> Panic
         | Ok (outs, adaptiveStreamingOutputs) \<Rightarrow>
             Ok \<lparr>cji_PipelineId = PipelineID (aws_config p),
                 cji_InputKey = source,
                 cji_Outputs = outs,
                 cji_Playlists =
                   (if 0 < length adaptiveStreamingOutputs
                    then (let playlistFileName =
                                PlaylistFileName (profile_StreamingParams transcodeProfile);
                              playlistFileName' =
                                strings_TrimRight playlistFileName (filepath_Ext playlistFileName)
                          in [\<lparr>cjp_Format = ''HLSv3'',
                                cjp_Name = ID job @ ''/'' @ playlistFileName',
                                cjp_OutputKeys =
                                  map (\<lambda>output. outputKey job (FileName output) True)
                                    adaptiveStreamingOutputs\<rparr>])
                    else [])\<rparr>)"

definition Transcode :: "awsProvider \<Rightarrow> Job \<Rightarrow> TranscodeProfile \<Rightarrow> JobStatus result" where
  "Transcode p job transcodeProfile =
     (case Transcode_params p job transcodeProfile of
        Err e \<Rightarrow> Err e
      | Panic \<Rightarrow> Panic
      | Ok params \<Rightarrow>
          (case c_CreateJob (aws_c p) params of
             Inl msg \<Rightarrow> Err (BackendError msg)
           | Inr None \<Rightarrow> Panic
           | Inr (Some j) \<Rightarrow>
               Ok \<lparr>js_ProviderName = Name,
                   js_ProviderJobID = aws_StringValue (aj_Id j),
                   js_Status = StatusQueued,
                   js_Progress = Finite 0, js_ProviderStatus = [], js_Duration = 0,
                   js_Height = 0, js_Width = 0, js_Destination = [], js_Files = []\<rparr>))"

subsection \<open>CreatePreset\<close>

definition createVideoPreset :: "provider_Preset \<Rightarrow> VideoParameters" where
  "createVideoPreset preset =
     (let normalizedVideoBitRate = strconv_Atoi (pv_Bitrate (pp_Video preset));
          videoBitrate = strconv_Itoa (normalizedVideoBitRate sdiv 1000)
      in \<lparr>ev_DisplayAspectRatio = ''auto'',
          ev_FrameRate = ''auto'',
          ev_SizingPolicy = ''Fill'',
          ev_PaddingPolicy = ''Pad'',
          ev_Codec = (if pv_Codec (pp_Video preset) = ''h264'' then ''H.264''
                      else pv_Codec (pp_Video preset)),
          ev_KeyframesMaxDist = pv_GopSize (pp_Video preset),
          ev_CodecOptions =
            [(''Profile'', strings_ToLower (pp_Profile preset)),
             (''Level'', pp_ProfileLevel preset),
             (''MaxReferenceFrames'', ''2'')],
          ev_MaxWidth = (if pv_Width (pp_Video preset) \<noteq> [] then pv_Width (pp_Video preset)
                         else ''auto''),
          ev_MaxHeight = (if pv_Height (pp_Video preset) \<noteq> [] then pv_Height (pp_Video preset)
                          else ''auto''),
          ev_BitRate = videoBitrate,
          ev_FixedGOP = (if pv_GopMode (pp_Video preset) = ''fixed'' then Some ''true''
                         else None)\<rparr>)"

definition createThumbsPreset :: "provider_Preset \<Rightarrow> Thumbnails" where
  "createThumbsPreset preset =
     \<lparr>th_PaddingPolicy = ''Pad'', th_Format = ''png'', th_Interval = ''1'',
      th_SizingPolicy = ''Fill'', th_MaxWidth = ''auto'', th_MaxHeight = ''auto''\<rparr>"

definition createAudioPreset :: "provider_Preset \<Rightarrow> AudioParameters" where
  "createAudioPreset preset =
     (let normalizedAudioBitRate = strconv_Atoi (pa_Bitrate (pp_Audio preset));
          audioBitrate = strconv_Itoa (normalizedAudioBitRate sdiv 1000)
      in \<lparr>ea_Codec = (if pa_Codec (pp_Audio preset) = ''aac'' then ''AAC''
                      else pa_Codec (pp_Audio preset)),
          ea_Channels = ''auto'',
          ea_SampleRate = ''auto'',
          ea_BitRate = audioBitrate\<rparr>)"

text \<open>The request \<open>presetInput\<close> that \<open>CreatePreset\<close> passes to the client (line 217).\<close>

definition CreatePreset_input :: "provider_Preset \<Rightarrow> CreatePresetInput" where
  "CreatePreset_input preset =
     \<lparr>cpi_Name = pp_Name preset,
      cpi_Description = pp_Description preset,
      cpi_Container = (if pp_Container preset = ''m3u8'' then ''ts'' else pp_Container preset),
      cpi_Video = createVideoPreset preset,
      cpi_Audio = createAudioPreset preset,
      cpi_Thumbnails = createThumbsPreset preset\<rparr>"

definition CreatePreset :: "awsProvider \<Rightarrow> provider_Preset \<Rightarrow> string result" where
  "CreatePreset p preset =
     (case c_CreatePreset (aws_c p) (CreatePreset_input preset) of
        Inl msg \<Rightarrow> Err (BackendError msg)
      | Inr None \<Rightarrow> Panic
      | Inr (Some pr) \<Rightarrow> (case ap_Id pr of None \<Rightarrow> Panic | Some presetID \<Rightarrow> Ok presetID))"

subsection \<open>JobStatus\<close>

text \<open>\<open>getOutputDestination\<close> returns a string or the SDK's error, whose message the
  caller reads with \<open>err.Error()\<close>.\<close>

definition getOutputDestination :: "awsProvider \<Rightarrow> Job \<Rightarrow> aws_Job \<Rightarrow> (string, string) go_result" where
  "getOutputDestination p job awsJob =
     (case c_ReadPipeline (aws_c p) (aj_PipelineId awsJob) of
        Inl msg \<Rightarrow> Err msg
      | Inr None \<Rightarrow> Panic
      | Inr (Some pipeline) \<Rightarrow>
          Ok (''s3://'' @ aws_StringValue (pl_OutputBucket pipeline) @ ''/'' @ ID job))"

text \<open>The loop of \<open>getOutputFiles\<close>, with the response of \<open>ReadPipeline\<close> at hand.\<close>

fun getOutputFiles_loop ::
  "awsProvider \<Rightarrow> aws_Pipeline option \<Rightarrow> aws_Job \<Rightarrow> aws_JobOutput list \<Rightarrow> OutputFile list result" where
  "getOutputFiles_loop p pipeline job [] = Ok []"
| "getOutputFiles_loop p pipeline job (output # rest) =
     (case c_ReadPreset (aws_c p) (jo_PresetId output) of
        Inl msg \<Rightarrow> Err (BackendError msg)
      | Inr preset \<Rightarrow>
          (case pipeline of
             None \<Rightarrow> Panic
           | Some pl \<Rightarrow>
               (case preset of
                  None \<Rightarrow> Panic
                | Some pr \<Rightarrow>
                    (case ap_Video pr of
                       None \<Rightarrow> Panic
                     | Some video \<Rightarrow>
                         (let filePath = ''s3://'' @ aws_StringValue (pl_OutputBucket pl) @ ''/''
                                @ aws_StringValue (aj_OutputKeyPrefix job)
                                @ aws_StringValue (jo_Key output);
                              file = \<lparr>of_Path = filePath,
                                      of_Container = aws_StringValue (ap_Container pr),
                                      of_VideoCodec = aws_StringValue (av_Codec video),
                                      of_Width = aws_Int64Value (jo_Width output),
                                      of_Height = aws_Int64Value (jo_Height output)\<rparr>
                          in case getOutputFiles_loop p pipeline job rest of
                               Ok files \<Rightarrow> Ok (file # files)
                             | Err e \<Rightarrow> Err e
                             | Panic \<Rightarrow> Panic)))))"

definition getOutputFiles :: "awsProvider \<Rightarrow> aws_Job \<Rightarrow> OutputFile list result" where
  "getOutputFiles p job =
     (case c_ReadPipeline (aws_c p) (aj_PipelineId job) of
        Inl msg \<Rightarrow> Err (BackendError msg)
      | Inr pipeline \<Rightarrow> getOutputFiles_loop p pipeline job (aj_Outputs job))"

text \<open>The loop of \<open>JobStatus\<close> over the outputs of the backend's job: the \<open>float64\<close>
  counter \<open>completedJobs\<close> and the map \<open>outputs\<close>.\<close>

definition output_completed :: "aws_JobOutput \<Rightarrow> bool" where
  "output_completed output =
     (let outputStatus = statusMap (aws_StringValue (jo_Status output))
      in outputStatus = StatusFinished \<or> outputStatus = StatusCanceled \<or>
         outputStatus = StatusFailed)"

fun JobStatus_loop ::
  "aws_JobOutput list \<Rightarrow> float64 \<Rightarrow> (string \<times> string) list \<Rightarrow>
     float64 \<times> (string \<times> string) list" where
  "JobStatus_loop [] completedJobs outputs = (completedJobs, outputs)"
| "JobStatus_loop (output # rest) completedJobs outputs =
     JobStatus_loop rest
       (if output_completed output then f64_add completedJobs (Finite 1) else completedJobs)
       (AList.update (aws_StringValue (jo_Key output)) (aws_StringValue (jo_StatusDetail output))
          outputs)"

text \<open>The end of \<open>JobStatus\<close>, from the call of \<open>getOutputFiles\<close> on, once
  \<open>outputDestination\<close> is known.\<close>

definition JobStatus_finish ::
  "awsProvider \<Rightarrow> aws_Job \<Rightarrow> float64 \<Rightarrow> (string \<times> string) list \<Rightarrow> string \<Rightarrow> JobStatus result" where
  "JobStatus_finish p awsJob completedJobs outputs outputDestination =
     (let totalJobs = length (aj_Outputs awsJob)
      in case getOutputFiles p awsJob of
           Err e \<Rightarrow> Err e
         | Panic \<Rightarrow> Panic
         | Ok outputFiles \<Rightarrow>
             (case (case aj_Input awsJob of None \<Rightarrow> None
                    | Some inp \<Rightarrow> ji_DetectedProperties inp) of
                None \<Rightarrow> Panic
              | Some detected \<Rightarrow>
                  Ok \<lparr>js_ProviderName = [],
                      js_ProviderJobID = aws_StringValue (aj_Id awsJob),
                      js_Status = statusMap (aws_StringValue (aj_Status awsJob)),
                      js_Progress =
                        f64_mul (f64_div completedJobs (f64_of_int (int totalJobs)))
                          (Finite 100),
                      js_ProviderStatus = outputs,
                      js_Duration = aws_Int64Value (dp_DurationMillis detected) * 1000000,
                      js_Height = aws_Int64Value (dp_Height detected),
                      js_Width = aws_Int64Value (dp_Width detected),
                      js_Destination = outputDestination,
                      js_Files = outputFiles\<rparr>))"

definition JobStatus :: "awsProvider \<Rightarrow> Job \<Rightarrow> JobStatus result" where
  "JobStatus p job =
     (case c_ReadJob (aws_c p) (ProviderJobID job) of
        Inl msg \<Rightarrow> Err (BackendError msg)
      | Inr None \<Rightarrow> Panic
      | Inr (Some awsJob) \<Rightarrow>
          (let (completedJobs, outputs) = JobStatus_loop (aj_Outputs awsJob) (Finite 0) []
           in case getOutputDestination p job awsJob of
                Panic \<Rightarrow> Panic
              | Ok outputDestination \<Rightarrow>
                  JobStatus_finish p awsJob completedJobs outputs outputDestination
              | Err msg \<Rightarrow> JobStatus_finish p awsJob completedJobs outputs msg))"

subsection \<open>elasticTranscoderProvider\<close>

text \<open>The factory the adapter registers. \<open>new_client\<close> stands for
  \<open>elastictranscoder.New\<close> on a session with the given access key, secret key and
  region.\<close>

definition elasticTranscoderProvider ::
  "(string \<Rightarrow> string \<Rightarrow> string \<Rightarrow> ElasticTranscoderAPI) \<Rightarrow> Config \<Rightarrow> awsProvider result" where
  "elasticTranscoderProvider new_client cfg =
     (case ElasticTranscoder cfg of
        None \<Rightarrow> Panic
      | Some et \<Rightarrow>
          if AccessKeyID et = [] \<or> SecretAccessKey et = [] \<or> PipelineID et = []
          then Err errAWSInvalidConfig
          else (let region = (if Region et = [] then defaultAWSRegion else Region et)
                in Ok \<lparr>aws_c = new_client (AccessKeyID et) (SecretAccessKey et) region,
                       aws_config = et\<rparr>))"

section \<open>The transcoding service\<close>

subsection \<open>Requests, responses and collaborators\<close>

text \<open>\<open>input.Payload\<close>, the decoded body of \<open>POST /jobs\<close>.\<close>

record Payload =
  in_Provider :: string
  in_Source :: string
  in_Presets :: "string list"
  in_StreamingParams :: StreamingParams
  in_StatusCallbackURL :: string
  in_StatusCallbackInterval :: "64 word"
  in_CompletionCallbackURL :: string

text \<open>
  The responses, one constructor for each constructor function of the service:
  \<open>newInvalidJobResponse\<close> (the \<open>invalidJob\<close> response, status 400),
  \<open>newErrorResponse\<close> (\<open>genericError\<close>, 500), \<open>newJobResponse\<close> (200),
  \<open>newJobNotFoundResponse\<close> (404), \<open>newJobNotFoundProviderResponse\<close> (410) and
  \<open>newJobStatusResponse\<close> (200).
\<close>

datatype gizmoResponse =
    InvalidJobResponse go_error
  | ErrorResponse go_error
  | JobResponse string
  | JobNotFoundResponse go_error
  | JobNotFoundProviderResponse go_error
  | JobStatusResponse "JobStatus option"

text \<open>
  The service \<open>s\<close> with what it reaches: its configuration, the store \<open>s.db\<close>, the
  registry of provider factories and, for a provider object of type \<open>'p\<close>, the two
  methods of the interface \<open>provider.TranscodingProvider\<close> that the service calls, with
  the signatures of its call sites. A store or registry call returns a value or an
  error; a factory or a method may also panic, and a method may return \<open>nil, nil\<close>
  (\<open>Ok None\<close>), as the provider of \<open>fake_provider_test.go\<close> does.
\<close>

record 'p TranscodingService =
  svc_config :: Config
  db_GetPreset :: "string \<Rightarrow> go_error + PresetMap"
  db_GetJob :: "string \<Rightarrow> go_error + Job"
  db_CreateJob :: "Job \<Rightarrow> go_error + Job"
  GetProviderFactory :: "string \<Rightarrow> go_error + (Config \<Rightarrow> 'p result)"
  prov_Transcode :: "'p \<Rightarrow> TranscodeProfile \<Rightarrow> JobStatus option result"
  prov_JobStatus :: "'p \<Rightarrow> string \<Rightarrow> JobStatus option result"

text \<open>What a handler does besides answering: the jobs it has passed to
  \<open>s.db.CreateJob\<close>, and the callback loops it has started, each with the deadline of
  its context and its job.\<close>

record effects =
  fx_CreateJob :: "Job list"
  fx_statusCallback :: "(nat \<times> Job) list"

definition no_effects :: effects where
  "no_effects = \<lparr>fx_CreateJob = [], fx_statusCallback = []\<rparr>"

text \<open>Time is counted in nanoseconds, as \<open>time.Duration\<close> does.\<close>

definition maxJobTimeout :: nat where
  "maxJobTimeout = 8 * (3600 * 1000000000)"

subsection \<open>newTranscodeJob\<close>

text \<open>The loop over \<open>input.Payload.Presets\<close>: the resolved presets, or the response of
  the early return.\<close>

fun resolve_presets :: "'p TranscodingService \<Rightarrow> string list \<Rightarrow> gizmoResponse + PresetMap list" where
  "resolve_presets s [] = Inr []"
| "resolve_presets s (presetID # rest) =
     (case db_GetPreset s presetID of
        Inl err \<Rightarrow>
          (if err = db_ErrPresetNotFound then Inl (InvalidJobResponse err)
           else Inl (ErrorResponse err))
      | Inr preset \<Rightarrow>
          (case resolve_presets s rest of
             Inl response \<Rightarrow> Inl response
           | Inr presets \<Rightarrow> Inr (preset # presets)))"

text \<open>
  \<open>newTranscodeJob\<close>. The argument \<open>parsed\<close> is the outcome of
  \<open>input.ProviderFactory(r.Body)\<close>, a method that is not among the source files: an
  error, or the payload it has decoded with the factory of the provider the payload
  names. \<open>now\<close> is the clock when the context of the callback loop is created. The
  result is the response, \<open>None\<close> when the handler panics, and the effects.
\<close>

definition newTranscodeJob ::
  "'p TranscodingService \<Rightarrow> nat \<Rightarrow> go_error + (Payload \<times> (Config \<Rightarrow> 'p result)) \<Rightarrow>
     gizmoResponse option \<times> effects" where
  "newTranscodeJob s now parsed =
     (case parsed of
        Inl err \<Rightarrow> (Some (InvalidJobResponse err), no_effects)
      | Inr (payload, providerFactory) \<Rightarrow>
          (case providerFactory (svc_config s) of
             Panic \<Rightarrow> (None, no_effects)
           | Err err \<Rightarrow>
               (let formattedErr =
                      Errorf ''Error initializing provider %s for new job: %v %s''
                        [in_Provider payload] [err]
                in if is_InvalidConfigError err
                   then (Some (InvalidJobResponse formattedErr), no_effects)
                   else (Some (ErrorResponse formattedErr), no_effects))
           | Ok providerObj \<Rightarrow>
               (case resolve_presets s (in_Presets payload) of
                  Inl response \<Rightarrow> (Some response, no_effects)
                | Inr presets \<Rightarrow>
                    (let transcodeProfile =
                           \<lparr>SourceMedia = in_Source payload, Presets = presets, Outputs = [],
                            profile_StreamingParams = in_StreamingParams payload\<rparr>
                     in case prov_Transcode s providerObj transcodeProfile of
                          Panic \<Rightarrow> (None, no_effects)
                        | Err err \<Rightarrow>
                            (if err = ErrPresetMapNotFound
                             then (Some (InvalidJobResponse err), no_effects)
                             else (Some (ErrorResponse
                                      (Errorf ''Error with provider %q: %s''
                                         [in_Provider payload] [err])), no_effects))
                        | Ok None \<Rightarrow> (None, no_effects)
                        | Ok (Some jobStatus) \<Rightarrow>
                            (let job =
                                   \<lparr>ID = [],
                                    ProviderName = in_Provider payload,
                                    ProviderJobID = js_ProviderJobID jobStatus,
                                    StatusCallbackURL = in_StatusCallbackURL payload,
                                    StatusCallbackInterval = in_StatusCallbackInterval payload,
                                    CompletionCallbackURL = in_CompletionCallbackURL payload,
                                    job_StreamingParams =
                                      (if Protocol (profile_StreamingParams transcodeProfile) \<noteq> []
                                       then \<lparr>db_SegmentDuration =
                                               SegmentDuration (profile_StreamingParams transcodeProfile),
                                             db_Protocol =
                                               Protocol (profile_StreamingParams transcodeProfile)\<rparr>
                                       else \<lparr>db_SegmentDuration = 0, db_Protocol = []\<rparr>)\<rparr>
                             in case db_CreateJob s job of
                                  Inl err \<Rightarrow>
                                    (Some (ErrorResponse err),
                                     \<lparr>fx_CreateJob = [job], fx_statusCallback = []\<rparr>)
                                | Inr job' \<Rightarrow>
                                    (Some (JobResponse (ID job')),
                                     \<lparr>fx_CreateJob = [job],
                                      fx_statusCallback =
                                        (if StatusCallbackURL job' \<noteq> [] \<or>
                                            CompletionCallbackURL job' \<noteq> []
                                         then [(now + maxJobTimeout, job')]
                                         else [])\<rparr>))))))"

subsection \<open>getTranscodeJobByID and getJobStatusResponse\<close>

text \<open>The four results of \<open>getTranscodeJobByID\<close>, \<open>nil\<close> being \<open>None\<close>; the whole is
  \<open>None\<close> when the call panics. A provider object that is \<open>nil\<close> is left out of the
  arguments of \<open>Errorf\<close>.\<close>

definition getTranscodeJobByID ::
  "'p TranscodingService \<Rightarrow> string \<Rightarrow>
     (Job option \<times> JobStatus option \<times> 'p option \<times> go_error option) option" where
  "getTranscodeJobByID s jobID =
     (case db_GetJob s jobID of
        Inl err \<Rightarrow>
          (if err = db_ErrJobNotFound then Some (None, None, None, Some err)
           else Some (None, None, None,
                      Some (Errorf ''error retrieving job with id %q: %s'' [jobID] [err])))
      | Inr job \<Rightarrow>
          (case GetProviderFactory s (ProviderName job) of
             Inl err \<Rightarrow>
               Some (Some job, None, None,
                     Some (Errorf ''unknown provider %q for job id %q''
                             [ProviderName job, jobID] []))
           | Inr providerFactory \<Rightarrow>
               (case providerFactory (svc_config s) of
                  Panic \<Rightarrow> None
                | Err err \<Rightarrow>
                    Some (Some job, None, None,
                          Some (Errorf ''error initializing provider %q on job id %q: %s %s''
                                  [ProviderName job, jobID] [err]))
                | Ok providerObj \<Rightarrow>
                    (case prov_JobStatus s providerObj (ProviderJobID job) of
                       Panic \<Rightarrow> None
                     | Err err \<Rightarrow> Some (Some job, None, Some providerObj, Some err)
                     | Ok None \<Rightarrow> None
                     | Ok (Some jobStatus) \<Rightarrow>
                         Some (Some job,
                               Some (jobStatus\<lparr>js_ProviderName := ProviderName job\<rparr>),
                               Some providerObj, None)))))"

definition getJobStatusResponse ::
  "Job option \<Rightarrow> JobStatus option \<Rightarrow> 'p option \<Rightarrow> go_error option \<Rightarrow> gizmoResponse option" where
  "getJobStatusResponse job jobStatus providerObj err =
     (case err of
        Some e \<Rightarrow>
          (if e = db_ErrJobNotFound then Some (JobNotFoundResponse e)
           else (case providerObj of
                   Some obj \<Rightarrow>
                     (case job of
                        None \<Rightarrow> None
                      | Some j \<Rightarrow>
                          (let providerError =
                                 Errorf ''Error with provider %q when trying to retrieve job id %q: %s''
                                   [ProviderName j, ID j] [e]
                           in if is_JobNotFoundError e
                              then Some (JobNotFoundProviderResponse providerError)
                              else Some (ErrorResponse providerError)))
                 | None \<Rightarrow> Some (ErrorResponse e)))
      | None \<Rightarrow> Some (JobStatusResponse jobStatus))"

subsection \<open>postStatusToCallback\<close>

text \<open>
  What the world outside answers to one call of \<open>postStatusToCallback\<close>: whether
  \<open>json.Marshal\<close> fails on the payload, whether \<open>http.NewRequest\<close> accepts the URL
  (its error is not checked; on a failure the request is \<open>nil\<close> and setting its header
  panics), whether \<open>client.Do\<close> fails, and the time the call takes.
\<close>

record http_world =
  json_Marshal_err :: "gizmoResponse \<Rightarrow> go_error option"
  NewRequest_ok :: "string \<Rightarrow> bool"
  client_Do_err :: "string \<Rightarrow> gizmoResponse \<Rightarrow> go_error option"
  post_ns :: "string \<Rightarrow> nat"

definition postStatusToCallback :: "http_world \<Rightarrow> gizmoResponse \<Rightarrow> string \<Rightarrow> unit result" where
  "postStatusToCallback h payloadStruct callbackURL =
     (case json_Marshal_err h payloadStruct of
        Some err \<Rightarrow> Err err
      | None \<Rightarrow>
          if \<not> NewRequest_ok h callbackURL then Panic
          else (case client_Do_err h callbackURL payloadStruct of
                  Some err \<Rightarrow> Err err
                | None \<Rightarrow> Ok ()))"

subsection \<open>statusCallback\<close>

text \<open>
  The world during one iteration of the loop: the service as the status query of this
  iteration finds it (store, registry and backend change from one poll to the next),
  the time the query takes, and the answers to the posts.
\<close>

record 'p iteration_world =
  w_svc :: "'p TranscodingService"
  w_query_ns :: nat
  w_http :: http_world

text \<open>What the loop does, in order: a status query, begun at the given clock; a post to
  the status callback URL or to the completion callback URL, with its payload and
  whether it succeeded; a sleep of the given length.\<close>

datatype callback_event =
    Polled nat
  | StatusPost gizmoResponse bool
  | CompletionPost gizmoResponse bool
  | Slept nat

text \<open>How one pass through the loop body ends: at its end or at a \<open>continue\<close>, at the
  \<open>break\<close>, or in a panic.\<close>

datatype body_end = Continue | Break | Crash

text \<open>\<open>time.Duration(job.StatusCallbackInterval) * time.Second\<close>, a product of 64-bit
  integers, and the time \<open>time.Sleep\<close> takes for it: none when it is not positive.\<close>

definition sleep_ns :: "Job \<Rightarrow> nat" where
  "sleep_ns job = nat (sint (StatusCallbackInterval job * 1000000000))"

text \<open>The part of the loop body after the status callback: the test of the status, the
  completion callback, the sleep. \<open>t\<close> is the clock, \<open>j\<close> the job the query returned.\<close>

definition statusCallback_tail ::
  "http_world \<Rightarrow> Job \<Rightarrow> JobStatus option \<Rightarrow> gizmoResponse \<Rightarrow> nat \<Rightarrow>
     body_end \<times> nat \<times> callback_event list" where
  "statusCallback_tail h j jobStatus gizmoResponseObj t =
     (case jobStatus of
        None \<Rightarrow> (Crash, t, [])
      | Some js \<Rightarrow>
          if js_Status js \<noteq> StatusQueued \<and> js_Status js \<noteq> StatusStarted
          then (if CompletionCallbackURL j \<noteq> []
                then (case postStatusToCallback h gizmoResponseObj (CompletionCallbackURL j) of
                        Panic \<Rightarrow> (Crash, t, [])
                      | Err err \<Rightarrow>
                          (Continue, t + post_ns h (CompletionCallbackURL j),
                           [CompletionPost gizmoResponseObj False])
                      | Ok u \<Rightarrow>
                          (Break, t + post_ns h (CompletionCallbackURL j),
                           [CompletionPost gizmoResponseObj True]))
                else (Break, t, []))
          else (Continue, t + sleep_ns j, [Slept (sleep_ns j)]))"

text \<open>The loop body, begun at the clock \<open>now\<close>. \<open>job\<close> is the parameter of
  \<open>statusCallback\<close>; inside the body the name is shadowed by the job the query
  returns.\<close>

definition statusCallback_body ::
  "'p iteration_world \<Rightarrow> Job \<Rightarrow> nat \<Rightarrow> body_end \<times> nat \<times> callback_event list" where
  "statusCallback_body w job now =
     (case getTranscodeJobByID (w_svc w) (ID job) of
        None \<Rightarrow> (Crash, now, [Polled now])
      | Some (job', jobStatus, providerObj, err) \<Rightarrow>
          (case getJobStatusResponse job' jobStatus providerObj err of
             None \<Rightarrow> (Crash, now, [Polled now])
           | Some gizmoResponseObj \<Rightarrow>
               (case job' of
                  None \<Rightarrow> (Crash, now, [Polled now])
                | Some j \<Rightarrow>
                    (let t = now + w_query_ns w
                     in if StatusCallbackURL j \<noteq> []
                        then (case postStatusToCallback (w_http w) gizmoResponseObj
                                     (StatusCallbackURL j) of
                                Panic \<Rightarrow> (Crash, t, [Polled now])
                              | Err err \<Rightarrow>
                                  (Continue, t + post_ns (w_http w) (StatusCallbackURL j),
                                   [Polled now, StatusPost gizmoResponseObj False])
                              | Ok u \<Rightarrow>
                                  (case statusCallback_tail (w_http w) j jobStatus gizmoResponseObj
                                          (t + post_ns (w_http w) (StatusCallbackURL j)) of
                                     (e, t', evs) \<Rightarrow>
                                       (e, t', [Polled now, StatusPost gizmoResponseObj True] @ evs)))
                        else (case statusCallback_tail (w_http w) j jobStatus gizmoResponseObj t of
                                (e, t', evs) \<Rightarrow> (e, t', Polled now # evs))))))"

text \<open>How a run of the loop stands when the given worlds are used up: it has returned, it
  has panicked, or it is still running (the loop condition held and there is no further
  world to run the body in).\<close>

datatype loop_end = Returned | Panicked | Running

record callback_run =
  run_end :: loop_end
  run_clock :: nat
  run_log :: "callback_event list"

text \<open>
  \<open>statusCallback\<close>: the loop, one world for each iteration. \<open>deadline\<close> is
  \<open>ctx.Deadline()\<close>, \<open>now\<close> the clock when the loop is entered and at each later test of
  the loop condition \<open>now.Before(deadline)\<close>.
\<close>

fun statusCallback :: "'p iteration_world list \<Rightarrow> nat \<Rightarrow> Job \<Rightarrow> nat \<Rightarrow> callback_run" where
  "statusCallback [] deadline job now =
     \<lparr>run_end = (if now < deadline then Running else Returned), run_clock = now, run_log = []\<rparr>"
| "statusCallback (w # ws) deadline job now =
     (if now < deadline
      then (case statusCallback_body w job now of
              (Continue, t, evs) \<Rightarrow>
                (let r = statusCallback ws deadline job t in r\<lparr>run_log := evs @ run_log r\<rparr>)
            | (Break, t, evs) \<Rightarrow> \<lparr>run_end = Returned, run_clock = t, run_log = evs\<rparr>
            | (Crash, t, evs) \<Rightarrow> \<lparr>run_end = Panicked, run_clock = t, run_log = evs\<rparr>)
      else \<lparr>run_end = Returned, run_clock = now, run_log = []\<rparr>)"

section \<open>Example data\<close>

text \<open>
  A backend with two presets, \<open>preset-ts\<close> (container \<open>ts\<close>) and \<open>preset-mp4\<close>, one
  pipeline and two jobs: \<open>job-complete\<close>, complete with its two outputs, and
  \<open>job-error\<close>, whose two outputs are complete while the job itself is reported in
  error. It does not know other presets or jobs.
\<close>

definition example_outputs :: "aws_JobOutput list" where
  "example_outputs =
     [\<lparr>jo_Status = Some ''Complete'', jo_Key = Some ''job-123/file_720p.mp4'',
       jo_StatusDetail = None, jo_PresetId = Some ''preset-mp4'',
       jo_Width = Some 1280, jo_Height = Some 720\<rparr>,
      \<lparr>jo_Status = Some ''Complete'', jo_Key = Some ''job-123/hls/video'',
       jo_StatusDetail = None, jo_PresetId = Some ''preset-ts'',
       jo_Width = Some 640, jo_Height = Some 360\<rparr>]"

definition example_aws_job :: "string \<Rightarrow> aws_Job" where
  "example_aws_job status =
     \<lparr>aj_Id = Some ''1461653-abcdef'', aj_Status = Some status,
      aj_PipelineId = Some ''pipeline-1'', aj_OutputKeyPrefix = None,
      aj_Outputs = example_outputs,
      aj_Input = Some \<lparr>ji_DetectedProperties =
        Some \<lparr>dp_DurationMillis = Some 120000, dp_Height = Some 1080,
              dp_Width = Some 1920\<rparr>\<rparr>\<rparr>"

definition example_client :: ElasticTranscoderAPI where
  "example_client =
     \<lparr>c_ReadPreset = (\<lambda>i.
        if i = Some ''preset-ts''
        then Inr (Some \<lparr>ap_Id = Some ''preset-ts'', ap_Container = Some ''ts'',
                        ap_Video = Some \<lparr>av_Codec = Some ''H.264''\<rparr>\<rparr>)
        else if i = Some ''preset-mp4''
        then Inr (Some \<lparr>ap_Id = Some ''preset-mp4'', ap_Container = Some ''mp4'',
                        ap_Video = Some \<lparr>av_Codec = Some ''H.264''\<rparr>\<rparr>)
        else Inl ''ResourceNotFoundException''),
      c_CreateJob = (\<lambda>params.
        Inr (Some \<lparr>aj_Id = Some ''1461653-abcdef'', aj_Status = Some ''Submitted'',
                   aj_PipelineId = Some (cji_PipelineId params), aj_OutputKeyPrefix = None,
                   aj_Outputs = [], aj_Input = None\<rparr>)),
      c_ReadJob = (\<lambda>i.
        if i = ''job-complete'' then Inr (Some (example_aws_job ''Complete''))
        else if i = ''job-error'' then Inr (Some (example_aws_job ''Error''))
        else Inl ''ResourceNotFoundException''),
      c_ReadPipeline = (\<lambda>i. Inr (Some \<lparr>pl_OutputBucket = Some ''some-bucket''\<rparr>)),
      c_CreatePreset = (\<lambda>input.
        Inr (Some \<lparr>ap_Id = Some ''preset-new'', ap_Container = Some (cpi_Container input),
                   ap_Video = None\<rparr>))\<rparr>"

definition example_provider :: awsProvider where
  "example_provider =
     \<lparr>aws_c = example_client,
      aws_config = \<lparr>AccessKeyID = ''AKIA'', SecretAccessKey = ''secret'', Region = [],
                     PipelineID = ''pipeline-1''\<rparr>\<rparr>"

text \<open>A job with a completion callback and no status callback, polled every five
  seconds.\<close>

definition example_job :: Job where
  "example_job =
     \<lparr>ID = ''job-123'', ProviderName = ''elastictranscoder'', ProviderJobID = ''job-complete'',
      StatusCallbackURL = [], StatusCallbackInterval = 5,
      CompletionCallbackURL = ''http://example.com/done'',
      job_StreamingParams = \<lparr>db_SegmentDuration = 3, db_Protocol = ''hls''\<rparr>\<rparr>"

text \<open>Three presets of the store: one mapped to \<open>preset-ts\<close>, one mapped to a preset
  the backend does not know, one without a mapping for the Elastic Transcoder.\<close>

definition preset_hls :: PresetMap where
  "preset_hls = \<lparr>pm_Name = ''hls_720p'', ProviderMapping = [''elastictranscoder'' \<mapsto> ''preset-ts'']\<rparr>"

definition preset_gone :: PresetMap where
  "preset_gone = \<lparr>pm_Name = ''gone'', ProviderMapping = [''elastictranscoder'' \<mapsto> ''preset-gone'']\<rparr>"

definition preset_unmapped :: PresetMap where
  "preset_unmapped = \<lparr>pm_Name = ''unmapped'', ProviderMapping = [''encodingcom'' \<mapsto> ''h264_720p'']\<rparr>"

definition example_streaming :: StreamingParams where
  "example_streaming =
     \<lparr>SegmentDuration = 3, Protocol = ''hls'', PlaylistFileName = ''hls/master.m3u8''\<rparr>"

definition example_profile :: "TranscodeOutput list \<Rightarrow> TranscodeProfile" where
  "example_profile outputs =
     \<lparr>SourceMedia = ''s3://some-bucket/dir/file.mov'', Presets = [], Outputs = outputs,
      profile_StreamingParams = example_streaming\<rparr>"

text \<open>
  A service whose provider objects are adapters. The two source files are at different
  signatures of the interface, so the example puts the adapter behind the signatures
  of the service's call sites: \<open>Transcode(profile)\<close> runs the adapter's \<open>Transcode\<close>
  for \<open>example_job\<close> on one output for each preset of the profile, named after the
  preset; \<open>JobStatus(id)\<close> runs the adapter's \<open>JobStatus\<close> on \<open>example_job\<close> with that
  provider job id. The store holds the three presets and \<open>example_job\<close>, and gives a
  new job the ID \<open>job-123\<close>.
\<close>

definition returned :: "'a result \<Rightarrow> 'a option result" where
  "returned r = (case r of Ok v \<Rightarrow> Ok (Some v) | Err e \<Rightarrow> Err e | Panic \<Rightarrow> Panic)"

definition example_service :: "Config \<Rightarrow> awsProvider TranscodingService" where
  "example_service cfg =
     \<lparr>svc_config = cfg,
      db_GetPreset = (\<lambda>presetID.
        if presetID = ''hls_720p'' then Inr preset_hls
        else if presetID = ''gone'' then Inr preset_gone
        else if presetID = ''unmapped'' then Inr preset_unmapped
        else Inl db_ErrPresetNotFound),
      db_GetJob = (\<lambda>jobID. if jobID = ''job-123'' then Inr example_job else Inl db_ErrJobNotFound),
      db_CreateJob = (\<lambda>job. Inr (job\<lparr>ID := ''job-123''\<rparr>)),
      GetProviderFactory = (\<lambda>name.
        if name = Name then Inr (elasticTranscoderProvider (\<lambda>key secret region. example_client))
        else Inl (BackendError ''provider not found'')),
      prov_Transcode = (\<lambda>p profile.
        returned (Transcode p example_job
          (profile\<lparr>Outputs := map (\<lambda>preset. \<lparr>Preset = preset, FileName = pm_Name preset\<rparr>)
                                (Presets profile)\<rparr>))),
      prov_JobStatus = (\<lambda>p i. returned (JobStatus p (example_job\<lparr>ProviderJobID := i\<rparr>)))\<rparr>"

definition example_config :: Config where
  "example_config = \<lparr>ElasticTranscoder = Some (aws_config example_provider)\<rparr>"

definition example_payload :: "string list \<Rightarrow> Payload" where
  "example_payload presets =
     \<lparr>in_Provider = ''elastictranscoder'', in_Source = ''s3://some-bucket/dir/file.mov'',
      in_Presets = presets, in_StreamingParams = example_streaming,
      in_StatusCallbackURL = [], in_StatusCallbackInterval = 5,
      in_CompletionCallbackURL = ''http://example.com/done''\<rparr>"

text \<open>A world in which every post succeeds and takes 20 ms, and a status query takes
  100 ms.\<close>

definition example_http :: http_world where
  "example_http =
     \<lparr>json_Marshal_err = (\<lambda>payload. None), NewRequest_ok = (\<lambda>url. True),
      client_Do_err = (\<lambda>url payload. None), post_ns = (\<lambda>url. 20000000)\<rparr>"

definition example_world :: "awsProvider iteration_world" where
  "example_world =
     \<lparr>w_svc = example_service example_config, w_query_ns = 100000000, w_http = example_http\<rparr>"

text \<open>The status the adapter reports for the two jobs of the example backend, but for
  the \<open>Status\<close> field.\<close>

definition example_status :: "Status \<Rightarrow> JobStatus" where
  "example_status st =
     \<lparr>js_ProviderName = [], js_ProviderJobID = ''1461653-abcdef'',
      js_Status = st, js_Progress = Finite 100,
      js_ProviderStatus = [(''job-123/file_720p.mp4'', []), (''job-123/hls/video'', [])],
      js_Duration = 120000000000, js_Height = 1080, js_Width = 1920,
      js_Destination = ''s3://some-bucket/job-123'',
      js_Files = [\<lparr>of_Path = ''s3://some-bucket/job-123/file_720p.mp4'',
                    of_Container = ''mp4'', of_VideoCodec = ''H.264'',
                    of_Width = 1280, of_Height = 720\<rparr>,
                  \<lparr>of_Path = ''s3://some-bucket/job-123/hls/video'',
                    of_Container = ''ts'', of_VideoCodec = ''H.264'',
                    of_Width = 640, of_Height = 360\<rparr>]\<rparr>"

section \<open>Properties of the adapter's pure functions\<close>

lemma strings_Replace_1_prefix:
  "old \<noteq> [] \<Longrightarrow> strings_Replace_1 (old @ rest) old new = new @ rest"
  by (cases old) simp_all

lemma strings_SplitN_2_first:
  "sep \<notin> set a \<Longrightarrow> strings_SplitN_2 (a @ sep # b) sep = [a, b]"
  by (induction a) (auto simp: strings_SplitN_2_def)

text \<open>
  Claim C2. For every backend status string, \<open>statusMap\<close> returns one of the five
  values of the shared vocabulary: \<open>Submitted\<close> gives Queued, \<open>Progressing\<close> gives
  Started, \<open>Complete\<close> gives Finished, \<open>Canceled\<close> gives Canceled, and every other
  string, the empty one included, gives Failed.
\<close>

theorem statusMap_total:
  "statusMap ''Submitted'' = StatusQueued \<and>
   statusMap ''Progressing'' = StatusStarted \<and>
   statusMap ''Complete'' = StatusFinished \<and>
   statusMap ''Canceled'' = StatusCanceled \<and>
   statusMap '''' = StatusFailed \<and>
   (s \<notin> {''Submitted'', ''Progressing'', ''Complete'', ''Canceled''} \<longrightarrow>
      statusMap s = StatusFailed) \<and>
   statusMap s \<in> {StatusQueued, StatusStarted, StatusFinished, StatusFailed, StatusCanceled}"
  by (simp add: statusMap_def)

theorem statusMap_total_witness:
  "''Error'' \<notin> {''Submitted'', ''Progressing'', ''Complete'', ''Canceled''} \<and>
   statusMap ''Error'' = StatusFailed \<and>
   statusMap ''submitted'' = StatusFailed"
  using statusMap_total [of "''Error''"] statusMap_total [of "''submitted''"]
  by simp

text \<open>
  Claim C7. A source locator \<open>s3://<bucket>/<key>\<close>, the bucket being the segment up
  to the first slash after the scheme, normalizes to the key alone; a locator that does
  not start with \<open>s3://\<close> is returned unchanged.
\<close>

theorem normalizeSource_key:
  "(CHR ''/'' \<notin> set bucket \<longrightarrow>
      normalizeSource (''s3://'' @ bucket @ ''/'' @ key) = key) \<and>
   (\<not> prefix ''s3://'' source \<longrightarrow> normalizeSource source = source)"
proof (intro conjI impI)
  assume nb: "CHR ''/'' \<notin> set bucket"
  have m: "s3Pattern_MatchString (''s3://'' @ bucket @ ''/'' @ key)"
    by (simp add: s3Pattern_MatchString_def)
  have r: "strings_Replace_1 (''s3://'' @ bucket @ ''/'' @ key) ''s3://'' '''' =
             bucket @ CHR ''/'' # key"
    using strings_Replace_1_prefix [of "''s3://''" "bucket @ ''/'' @ key" "''''"] by simp
  have s: "strings_SplitN_2 (bucket @ CHR ''/'' # key) CHR ''/'' = [bucket, key]"
    using nb by (rule strings_SplitN_2_first)
  show "normalizeSource (''s3://'' @ bucket @ ''/'' @ key) = key"
    unfolding normalizeSource_def using m by (simp only: r s Let_def if_True) simp
next
  assume "\<not> prefix ''s3://'' source"
  then show "normalizeSource source = source"
    by (simp add: normalizeSource_def s3Pattern_MatchString_def)
qed

theorem normalizeSource_key_witness:
  "normalizeSource ''s3://bucket/path/to/file.mp4'' = ''path/to/file.mp4'' \<and>
   normalizeSource ''path/to/file.mp4'' = ''path/to/file.mp4''"
proof -
  have a: "CHR ''/'' \<notin> set ''bucket''" by simp
  have b: "\<not> prefix ''s3://'' ''path/to/file.mp4''" by simp
  from normalizeSource_key [of "''bucket''" "''path/to/file.mp4''" "''path/to/file.mp4''"] a b
  show ?thesis by simp
qed

section \<open>Properties of JobStatus\<close>

text \<open>An integer below \<open>2\<^sup>5\<^sup>3\<close> is a \<open>float64\<close>: rounding leaves it as it is.\<close>

lemma ties_even_of_int: "ties_even (of_int z) = z"
  by (simp add: ties_even_def)

lemma f64_round_of_nat:
  assumes "n < 2 ^ 53"
  shows "f64_round (of_nat n) = of_nat n"
proof (cases "n = 0")
  case True
  then show ?thesis by (simp add: f64_round_def)
next
  case False
  define e where "e = bitlen (int n) - 1"
  have pos: "0 < int n" using False by simp
  from bitlen_bounds [OF pos] have lo: "2 ^ nat e \<le> int n"
    by (simp add: e_def)
  have "int n < 2 ^ 53" using assms by (metis of_nat_less_iff of_nat_numeral of_nat_power)
  with lo have "(2::int) ^ nat e < 2 ^ 53" by (rule le_less_trans)
  then have "nat e < 53" by (simp only: power_strict_increasing_iff)
  then have e52: "e \<le> 52" by simp
  have ex: "exponent2 \<bar>of_nat n\<bar> = e"
    using False by (simp add: exponent2_def e_def)
  define k where "k = nat (52 - e)"
  have u: "pow2 (e - 52) = 1 / 2 ^ k"
    using e52 by (cases "e = 52") (simp_all add: pow2_def k_def)
  have q: "\<bar>of_nat n :: rat\<bar> / (1 / 2 ^ k) = of_int (int n * 2 ^ k)"
    by simp
  have "f64_round (of_nat n) =
          sgn (of_nat n) * of_int (ties_even (of_int (int n * 2 ^ k))) * (1 / 2 ^ k)"
    using False unfolding f64_round_def ex Let_def u q by (simp only: of_nat_eq_0_iff if_False)
  also have "\<dots> = of_nat n"
    unfolding ties_even_of_int using False by simp
  finally show ?thesis .
qed

lemma f64_round_1: "f64_round 1 = 1"
  using f64_round_of_nat [of 1] by simp

lemma f64_round_100: "f64_round 100 = 100"
  using f64_round_of_nat [of 100] by simp

lemma JobStatus_loop_completed:
  "k + length outs < 2 ^ 53 \<Longrightarrow>
   fst (JobStatus_loop outs (Finite (of_nat k)) m) =
     Finite (of_nat (k + length (filter output_completed outs)))"
proof (induction outs arbitrary: k m)
  case Nil
  then show ?case by simp
next
  case (Cons a outs)
  show ?case
  proof (cases "output_completed a")
    case True
    have "Suc k < 2 ^ 53" using Cons.prems by simp
    then have r: "f64_round (of_nat k + 1) = of_nat (Suc k)"
      using f64_round_of_nat [of "Suc k"] by (simp add: add.commute)
    have "Suc k + length outs < 2 ^ 53" using Cons.prems by simp
    from Cons.IH [OF this] show ?thesis using True by (simp add: r)
  next
    case False
    have "k + length outs < 2 ^ 53" using Cons.prems by simp
    from Cons.IH [OF this] show ?thesis using False by simp
  qed
qed

lemma output_completed_iff:
  "output_completed output =
     (statusMap (aws_StringValue (jo_Status output)) \<in>
        {StatusFinished, StatusCanceled, StatusFailed})"
  by (auto simp: output_completed_def Let_def)

lemma JobStatus_Ok_fields:
  assumes "c_ReadJob (aws_c p) (ProviderJobID job) = Inr (Some awsJob)"
      and "JobStatus p job = Ok js"
  shows "js_Progress js =
           f64_mul (f64_div (fst (JobStatus_loop (aj_Outputs awsJob) (Finite 0) []))
                      (f64_of_int (int (length (aj_Outputs awsJob))))) (Finite 100)"
    and "js_Status js = statusMap (aws_StringValue (aj_Status awsJob))"
  using assms
  by (auto simp: JobStatus_def JobStatus_finish_def Let_def
           split: go_result.splits option.splits prod.splits)

text \<open>
  Claim C8 (as amended). When the adapter reports a status for a job, the progress is the
  \<open>float64\<close> quotient of the number of outputs whose mapped status is Finished, Canceled
  or Failed by the number of outputs, times 100; for two outputs both reported
  \<open>Complete\<close> it is 100. The overall status is the mapped status of the backend's job
  itself: Finished when the backend reports the job \<open>Complete\<close>.
\<close>

theorem JobStatus_progress:
  assumes "c_ReadJob (aws_c p) (ProviderJobID job) = Inr (Some awsJob)"
      and "JobStatus p job = Ok js"
      and "length (aj_Outputs awsJob) < 2 ^ 53"
  shows "js_Progress js =
           f64_mul
             (f64_div
                (Finite (of_nat (length (filter
                   (\<lambda>output. statusMap (aws_StringValue (jo_Status output)) \<in>
                      {StatusFinished, StatusCanceled, StatusFailed})
                   (aj_Outputs awsJob)))))
                (Finite (of_nat (length (aj_Outputs awsJob)))))
             (Finite 100) \<and>
         (map jo_Status (aj_Outputs awsJob) = [Some ''Complete'', Some ''Complete''] \<longrightarrow>
            js_Progress js = Finite 100) \<and>
         js_Status js = statusMap (aws_StringValue (aj_Status awsJob)) \<and>
         (aj_Status awsJob = Some ''Complete'' \<longrightarrow> js_Status js = StatusFinished)"
proof -
  let ?outs = "aj_Outputs awsJob"
  have c: "fst (JobStatus_loop ?outs (Finite 0) []) =
             Finite (of_nat (length (filter output_completed ?outs)))"
    using JobStatus_loop_completed [of 0 ?outs "[]"] assms(3) by simp
  have t: "f64_of_int (int (length ?outs)) = Finite (of_nat (length ?outs))"
    using f64_round_of_nat [OF assms(3)] by (simp add: f64_of_int_def)
  have f: "filter output_completed ?outs =
             filter (\<lambda>output. statusMap (aws_StringValue (jo_Status output)) \<in>
                        {StatusFinished, StatusCanceled, StatusFailed}) ?outs"
    by (rule filter_cong) (simp_all add: output_completed_iff)
  have p: "js_Progress js =
             f64_mul (f64_div (Finite (of_nat (length (filter output_completed ?outs))))
                        (Finite (of_nat (length ?outs)))) (Finite 100)"
    using JobStatus_Ok_fields(1) [OF assms(1,2)] by (simp only: c t)
  have s: "js_Status js = statusMap (aws_StringValue (aj_Status awsJob))"
    by (rule JobStatus_Ok_fields(2) [OF assms(1,2)])
  have two: "js_Progress js = Finite 100"
    if m: "map jo_Status ?outs = [Some ''Complete'', Some ''Complete'']"
  proof -
    from m obtain a b where ab: "?outs = [a, b]" "jo_Status a = Some ''Complete''"
      "jo_Status b = Some ''Complete''"
      by (auto simp: map_eq_Cons_conv)
    have "output_completed a" "output_completed b"
      using ab by (simp_all add: output_completed_def statusMap_def aws_StringValue_def)
    then show ?thesis
      using p ab by (simp add: f64_round_1 f64_round_100)
  qed
  show ?thesis
    using p s two by (auto simp: f statusMap_def aws_StringValue_def)
qed

theorem JobStatus_progress_witness:
  "JobStatus example_provider example_job = Ok (example_status StatusFinished) \<and>
   map jo_Status (aj_Outputs (example_aws_job ''Complete'')) =
     [Some ''Complete'', Some ''Complete''] \<and>
   js_Progress (example_status StatusFinished) = Finite 100 \<and>
   js_Status (example_status StatusFinished) = StatusFinished"
proof -
  have a: "c_ReadJob (aws_c example_provider) (ProviderJobID example_job) =
             Inr (Some (example_aws_job ''Complete''))"
    by (simp add: example_provider_def example_client_def example_job_def)
  have b: "JobStatus example_provider example_job = Ok (example_status StatusFinished)"
    by code_simp
  have c: "length (aj_Outputs (example_aws_job ''Complete'')) < 2 ^ 53"
    by (simp add: example_aws_job_def example_outputs_def)
  have d: "map jo_Status (aj_Outputs (example_aws_job ''Complete'')) =
             [Some ''Complete'', Some ''Complete'']"
    by (simp add: example_aws_job_def example_outputs_def)
  have e: "aj_Status (example_aws_job ''Complete'') = Some ''Complete''"
    by (simp add: example_aws_job_def)
  note t = JobStatus_progress [OF a b c]
  from t d have p: "js_Progress (example_status StatusFinished) = Finite 100"
    by blast
  from t e have s: "js_Status (example_status StatusFinished) = StatusFinished"
    by blast
  from b d p s show ?thesis by blast
qed

text \<open>The claim as stated fails where the backend reports both outputs complete and the
  job itself in error: the progress is 100 and the overall status is Failed.\<close>

theorem JobStatus_progress_counterexample:
  "c_ReadJob example_client ''job-error'' = Inr (Some (example_aws_job ''Error'')) \<and>
   map jo_Status (aj_Outputs (example_aws_job ''Error'')) =
     [Some ''Complete'', Some ''Complete''] \<and>
   JobStatus example_provider (example_job\<lparr>ProviderJobID := ''job-error''\<rparr>) =
     Ok (example_status StatusFailed) \<and>
   js_Progress (example_status StatusFailed) = Finite 100 \<and>
   js_Status (example_status StatusFailed) \<noteq> StatusFinished"
proof -
  have a: "c_ReadJob example_client ''job-error'' = Inr (Some (example_aws_job ''Error''))"
    by (simp add: example_client_def)
  have b: "JobStatus example_provider (example_job\<lparr>ProviderJobID := ''job-error''\<rparr>) =
             Ok (example_status StatusFailed)"
    by code_simp
  show ?thesis
    using a b by (simp add: example_aws_job_def example_outputs_def example_status_def)
qed

end
